theory Spec2Isabelle
  imports Main
begin


section \<open>The demo service of app/index.js\<close>

text \<open>
  The service is one JavaScript file on top of the Express framework and the Node.js
  runtime. The embedding follows the file from top to bottom: the choice of the port,
  the two route handlers, and the call of \<open>app.listen\<close>. What the file asks of the
  framework (the methods of the response object, the router, the listener) is modelled
  next to the place where the file uses it.
\<close>

subsection \<open>JavaScript values and the operator \<open>||\<close>\<close>

text \<open>
  Only three kinds of values occur in the file: strings, numbers and \<open>undefined\<close>.
  The numbers of the file are integers.
\<close>

datatype jsval = JUndefined | JNum int | JStr string

text \<open>ToBoolean: \<open>undefined\<close>, the number 0 and the empty string are falsy.\<close>

fun truthy :: "jsval \<Rightarrow> bool" where
  "truthy JUndefined = False"
| "truthy (JNum n) = (n \<noteq> 0)"
| "truthy (JStr s) = (s \<noteq> [])"

text \<open>\<open>a || b\<close> is \<open>a\<close> when \<open>a\<close> is truthy and \<open>b\<close> otherwise; no operand is converted.\<close>

definition js_or :: "jsval \<Rightarrow> jsval \<Rightarrow> jsval" where
  "js_or a b = (if truthy a then a else b)"

text \<open>
  \<open>process.env\<close>: the variables of the environment. Every value is a string; a
  variable that is not set reads as \<open>undefined\<close>.
\<close>

type_synonym env = "string \<rightharpoonup> string"

definition env_get :: "env \<Rightarrow> string \<Rightarrow> jsval" where
  "env_get e k = (case e k of None \<Rightarrow> JUndefined | Some s \<Rightarrow> JStr s)"

text \<open>\<^verbatim>\<open>const port = process.env.PORT || 6969;\<close>\<close>

definition port :: "env \<Rightarrow> jsval" where
  "port e = js_or (env_get e ''PORT'') (JNum 6969)"

text \<open>
  ToString, as the template literal \<^verbatim>\<open>${port}\<close> applies it: a string is left as it is, an
  integer is written in decimal.
\<close>

definition digit_char :: "nat \<Rightarrow> char" where
  "digit_char d = ''0123456789'' ! d"

fun string_of_nat :: "nat \<Rightarrow> string" where
  "string_of_nat n =
     (if n < 10 then [digit_char n] else string_of_nat (n div 10) @ [digit_char (n mod 10)])"

declare string_of_nat.simps [simp del]

fun js_to_string :: "jsval \<Rightarrow> string" where
  "js_to_string JUndefined = ''undefined''"
| "js_to_string (JNum n) = (if n < 0 then ''-'' @ string_of_nat (nat (- n)) else string_of_nat (nat n))"
| "js_to_string (JStr s) = s"
subsection \<open>Requests\<close>

text \<open>
  A request as the router, a handler and the response object see it. The path is the
  path of the URL, without the query string. The headers are the object \<open>req.headers\<close>
  of Node.js: one value for each name, the names in lower case.
\<close>

datatype http_method = GET | HEAD | POST | PUT | DELETE | PATCH | OPTIONS

record request =
  req_method :: http_method
  path :: string
  query :: string
  req_headers :: "string \<rightharpoonup> string"
  req_body :: string

subsection \<open>What the platform computes\<close>

text \<open>
  Two functions of the framework and the runtime are parameters of the model, since the
  file does not decide them and their values are not needed: the entity tag that
  Express computes for a body (a hash of its bytes, the default of the setting
  \<open>etag fn\<close>), and the comparison of two HTTP dates
  (\<open>parseHttpDate(a) <= parseHttpDate(b)\<close>).
\<close>

record platform =
  etag_fn :: "string \<Rightarrow> string"
  http_date_le :: "string \<Rightarrow> string \<Rightarrow> bool"

subsection \<open>Conditional requests\<close>

text \<open>
  A header of a request or of a response, read as a condition: neither a missing header
  nor an empty one counts.
\<close>

fun given :: "string option \<Rightarrow> bool" where
  "given None = False"
| "given (Some v) = (v \<noteq> [])"

text \<open>White space, as \<^verbatim>\<open>\s\<close> takes it, among the characters a header can hold.\<close>

definition is_space :: "char \<Rightarrow> bool" where
  "is_space c =
     (c = CHR '' '' \<or> c = CHR 0x09 \<or> c = CHR 0x0A \<or> c = CHR 0x0B \<or> c = CHR 0x0C
      \<or> c = CHR 0x0D \<or> c = CHR 0xA0)"

fun split_on :: "char \<Rightarrow> string \<Rightarrow> string list" where
  "split_on c [] = [[]]"
| "split_on c (x # xs) =
     (if x = c then [] # split_on c xs
      else (case split_on c xs of [] \<Rightarrow> [[x]] | y # ys \<Rightarrow> (x # y) # ys))"

definition strip :: "(char \<Rightarrow> bool) \<Rightarrow> string \<Rightarrow> string" where
  "strip p s = rev (dropWhile p (rev (dropWhile p s)))"

text \<open>
  \<open>Cache-Control: no-cache\<close> in a request
  (\<^verbatim>\<open>/(?:^|,)\s*?no-cache\s*?(?:,|$)/\<close>): one of the directives between the commas is
  \<open>no-cache\<close>, white space around it aside.
\<close>

definition no_cache :: "string \<Rightarrow> bool" where
  "no_cache cc = (''no-cache'' \<in> set (map (strip is_space) (split_on (CHR '','') cc)))"

text \<open>
  \<open>parseTokenList\<close>: the entity tags of an If-None-Match header, separated by commas,
  without the blanks before and after each.
\<close>

definition parseTokenList :: "string \<Rightarrow> string list" where
  "parseTokenList str = map (strip (\<lambda>c. c = CHR '' '')) (split_on (CHR '','') str)"

text \<open>An entity tag of the request matches the tag of the response, weak or strong.\<close>

definition etag_matches :: "string \<Rightarrow> string \<Rightarrow> bool" where
  "etag_matches etag m = (m = etag \<or> m = ''W/'' @ etag \<or> ''W/'' @ m = etag)"

text \<open>
  The function \<open>fresh\<close> that Express calls: whether the copy that the client holds is
  still good, by the conditional headers of the request and the validators \<open>ETag\<close> and
  \<open>Last-Modified\<close> of the response. A request without If-None-Match and without
  If-Modified-Since is never fresh.
\<close>

fun etag_stale :: "string option \<Rightarrow> string option \<Rightarrow> bool" where
  "etag_stale None etag = False"
| "etag_stale (Some noneMatch) etag =
     (if noneMatch = [] \<or> noneMatch = ''*'' then False
      else (case etag of
              None \<Rightarrow> True
            | Some t \<Rightarrow> t = [] \<or> \<not> list_ex (etag_matches t) (parseTokenList noneMatch)))"

fun modified_stale :: "platform \<Rightarrow> string option \<Rightarrow> string option \<Rightarrow> bool" where
  "modified_stale pf None lastModified = False"
| "modified_stale pf (Some modifiedSince) lastModified =
     (if modifiedSince = [] then False
      else (case lastModified of
              None \<Rightarrow> True
            | Some t \<Rightarrow> t = [] \<or> \<not> http_date_le pf t modifiedSince))"

definition fresh :: "platform \<Rightarrow> (string \<rightharpoonup> string) \<Rightarrow> string option \<Rightarrow> string option \<Rightarrow> bool" where
  "fresh pf reqHeaders etag lastModified =
     (let modifiedSince = reqHeaders ''if-modified-since'';
          noneMatch = reqHeaders ''if-none-match''
      in if \<not> given modifiedSince \<and> \<not> given noneMatch then False
         else if (case reqHeaders ''cache-control'' of None \<Rightarrow> False | Some cc \<Rightarrow> no_cache cc)
           then False
         else if etag_stale noneMatch etag then False
         else if modified_stale pf modifiedSince lastModified then False
         else True)"

subsection \<open>The response object of Express\<close>

text \<open>
  The handlers of the file call three methods of the response object: \<open>status\<close>,
  \<open>type\<close> and \<open>send\<close>. The record holds what these methods write: the status code
  (Node.js starts every response with 200), the header fields of the response object
  (under their lower-case names, as Node.js keeps them), the bytes of the body that
  leave with \<open>end\<close>, and whether the response has been sent. A method that Node.js
  refuses with an exception returns the exception as a value. The headers that Node.js
  adds by itself while it writes (\<open>Date\<close>, \<open>Connection\<close>) are not headers of the
  response object and are not in the record.

  Express marks every response before a route sees it: \<open>X-Powered-By: Express\<close>.
\<close>

datatype js_error = ERR_HTTP_HEADERS_SENT

record response =
  statusCode :: nat
  headers :: "string \<rightharpoonup> string"
  body :: "string option"
  headersSent :: bool

definition new_response :: response where
  "new_response =
     \<lparr>statusCode = 200, headers = [''x-powered-by'' \<mapsto> ''Express''], body = None,
      headersSent = False\<rparr>"

definition to_lower :: "char \<Rightarrow> char" where
  "to_lower c =
     (let n = (of_char c :: nat)
      in if of_char (CHR ''A'') \<le> n \<and> n \<le> of_char (CHR ''Z'') then char_of (n + 32) else c)"

definition lower :: "string \<Rightarrow> string" where
  "lower s = map to_lower s"

definition then_do :: "js_error + 'a \<Rightarrow> ('a \<Rightarrow> js_error + 'b) \<Rightarrow> js_error + 'b" where
  "then_do m f = (case m of Inl e \<Rightarrow> Inl e | Inr x \<Rightarrow> f x)"

text \<open>\<open>res.status(code)\<close>: stores the code and returns the response.\<close>

definition res_status :: "nat \<Rightarrow> response \<Rightarrow> js_error + response" where
  "res_status code r = Inr (r\<lparr>statusCode := code\<rparr>)"

text \<open>
  \<open>res.setHeader\<close> and \<open>res.removeHeader\<close> of Node.js: both throw once the header
  block has been sent.
\<close>

definition setHeader :: "string \<Rightarrow> string \<Rightarrow> response \<Rightarrow> js_error + response" where
  "setHeader name v r =
     (if headersSent r then Inl ERR_HTTP_HEADERS_SENT
      else Inr (r\<lparr>headers := (headers r)(lower name \<mapsto> v)\<rparr>))"

definition removeHeader :: "string \<Rightarrow> response \<Rightarrow> js_error + response" where
  "removeHeader name r =
     (if headersSent r then Inl ERR_HTTP_HEADERS_SENT
      else Inr (r\<lparr>headers := (headers r)(lower name := None)\<rparr>))"

definition res_get :: "string \<Rightarrow> response \<Rightarrow> string option" where
  "res_get field r = headers r (lower field)"

text \<open>
  The part of the MIME table that the file reaches (\<open>res.type('html')\<close>), with the
  table's default for an unknown extension.
\<close>

definition mime_lookup :: "string \<Rightarrow> string" where
  "mime_lookup ext =
     (case map_of [(''html'', ''text/html''), (''txt'', ''text/plain''),
                   (''json'', ''application/json'')] (lower ext) of
        Some t \<Rightarrow> t
      | None \<Rightarrow> ''application/octet-stream'')"

text \<open>
  The default charset of a media type: UTF-8 for \<open>text/...\<close>, \<open>application/json\<close>
  and \<open>application/javascript\<close>, none for the others.
\<close>

definition mime_charsets_lookup :: "string \<Rightarrow> string option" where
  "mime_charsets_lookup t =
     (if take 5 t = ''text/'' \<or> take 16 t = ''application/json''
         \<or> take 22 t = ''application/javascript''
      then Some ''UTF-8'' else None)"

text \<open>Whether a Content-Type value already names a charset (\<^verbatim>\<open>/;\s*charset\s*=/\<close>).\<close>

definition charset_here :: "string \<Rightarrow> bool" where
  "charset_here s =
     (let t = dropWhile is_space s
      in take 7 t = ''charset'' \<and> take 1 (dropWhile is_space (drop 7 t)) = ''='')"

fun has_charset :: "string \<Rightarrow> bool" where
  "has_charset [] = False"
| "has_charset (c # cs) = ((c = CHR '';'' \<and> charset_here cs) \<or> has_charset cs)"

text \<open>
  \<open>res.set(field, value)\<close>: a Content-Type without a charset gets the default charset
  of its media type; then the field is stored.
\<close>

definition res_set :: "string \<Rightarrow> string \<Rightarrow> response \<Rightarrow> js_error + response" where
  "res_set field v r =
     (if lower field = ''content-type'' \<and> \<not> has_charset v then
        (case mime_charsets_lookup (takeWhile (\<lambda>c. c \<noteq> CHR '';'') v) of
           Some cs \<Rightarrow> setHeader field (v @ ''; charset='' @ lower cs) r
         | None \<Rightarrow> setHeader field v r)
      else setHeader field v r)"

text \<open>\<open>res.type(t)\<close>: a name without a slash is looked up in the MIME table.\<close>

definition res_type :: "string \<Rightarrow> response \<Rightarrow> js_error + response" where
  "res_type t r = res_set ''Content-Type'' (if CHR ''/'' \<in> set t then t else mime_lookup t) r"

text \<open>
  \<open>setCharset(type, 'utf-8')\<close>: the media type with the charset parameter set to utf-8
  (exact for a value whose only parameter is the charset, which is all the file
  produces); an empty value is left empty.
\<close>

definition setCharset_utf8 :: "string \<Rightarrow> string" where
  "setCharset_utf8 t =
     (if t = [] then [] else takeWhile (\<lambda>c. c \<noteq> CHR '';'') t @ ''; charset=utf-8'')"

text \<open>\<open>res.end(chunk)\<close>: the header block and the body leave; the response is finished.\<close>

definition res_end :: "string \<Rightarrow> response \<Rightarrow> response" where
  "res_end chunk r = (if headersSent r then r else r\<lparr>body := Some chunk, headersSent := True\<rparr>)"

text \<open>
  \<open>req.fresh\<close>, which \<open>send\<close> reads: only a GET or HEAD request whose response stands
  at a 2xx status or at 304 can be fresh; then the function \<open>fresh\<close> decides, on the
  headers of the request and the validators that the response holds by now.
\<close>

definition req_fresh :: "platform \<Rightarrow> request \<Rightarrow> response \<Rightarrow> bool" where
  "req_fresh pf req r =
     (if req_method req \<noteq> GET \<and> req_method req \<noteq> HEAD then False
      else if (200 \<le> statusCode r \<and> statusCode r < 300) \<or> statusCode r = 304
        then fresh pf (req_headers req) (res_get ''ETag'' r) (res_get ''Last-Modified'' r)
      else False)"

text \<open>
  \<open>res.send(chunk)\<close> for a string, step by step as Express takes them. The request and
  the settings that \<open>send\<close> reaches through the response object (\<open>this.req\<close>,
  \<open>this.app\<close>) are arguments here.

  First the headers of the body: a response without a Content-Type is typed \<open>html\<close>;
  the charset of the Content-Type is set to utf-8; the Content-Length is the number of
  bytes of the string; a response without an ETag gets the entity tag of the string.
\<close>

definition send_headers :: "platform \<Rightarrow> string \<Rightarrow> response \<Rightarrow> js_error + response" where
  "send_headers pf chunk r =
     then_do (if given (res_get ''Content-Type'' r) then Inr r else res_type ''html'' r)
       (\<lambda>r1. then_do
          (case res_get ''Content-Type'' r1 of
             Some t \<Rightarrow> res_set ''Content-Type'' (setCharset_utf8 t) r1
           | None \<Rightarrow> Inr r1)
          (\<lambda>r2. then_do (res_set ''Content-Length'' (string_of_nat (length chunk)) r2)
             (\<lambda>r3. if \<not> given (res_get ''ETag'' r2) \<and> etag_fn pf chunk \<noteq> []
                    then res_set ''ETag'' (etag_fn pf chunk) r3
                    else Inr r3)))"

text \<open>
  Then the status: a fresh request is answered 304. A response of status 204 or 304
  loses the headers of the body and the body itself; one of status 205 keeps a
  Content-Length of 0 and loses the body.
\<close>

definition send_strip :: "string \<Rightarrow> response \<Rightarrow> js_error + (response \<times> string)" where
  "send_strip chunk r =
     (if statusCode r = 204 \<or> statusCode r = 304 then
        then_do (removeHeader ''Content-Type'' r)
          (\<lambda>r1. then_do (removeHeader ''Content-Length'' r1)
             (\<lambda>r2. then_do (removeHeader ''Transfer-Encoding'' r2)
                (\<lambda>r3. Inr (r3, []))))
      else Inr (r, chunk))"

definition send_reset :: "string \<Rightarrow> response \<Rightarrow> js_error + (response \<times> string)" where
  "send_reset chunk r =
     (if statusCode r = 205 then
        then_do (res_set ''Content-Length'' ''0'' r)
          (\<lambda>r1. then_do (removeHeader ''Transfer-Encoding'' r1)
             (\<lambda>r2. Inr (r2, [])))
      else Inr (r, chunk))"

text \<open>At last the body: none for a HEAD request.\<close>

definition res_send :: "platform \<Rightarrow> request \<Rightarrow> string \<Rightarrow> response \<Rightarrow> js_error + response" where
  "res_send pf req chunk r =
     then_do (send_headers pf chunk r)
       (\<lambda>r4. then_do
          (send_strip chunk (if req_fresh pf req r4 then r4\<lparr>statusCode := 304\<rparr> else r4))
          (\<lambda>(r6, chunk6). then_do (send_reset chunk6 r6)
             (\<lambda>(r7, chunk7).
                Inr (if req_method req = HEAD then res_end [] r7 else res_end chunk7 r7))))"

subsection \<open>The two handlers\<close>

text \<open>
  \<^verbatim>\<open>app.get('/', (req, res) => {
    const url = 'https://github.com/KashifWajid/docker-k8s-helm-local-demo';
    const anchor = `<a href="${url}" target="_blank" rel="noopener noreferrer">App 1 : docker-k8s-helm-local-demo</a>`;
    res.type('html').send(anchor);
  });\<close>
\<close>

definition url :: string where
  \<open>url = ''https://github.com/KashifWajid/docker-k8s-helm-local-demo''\<close>

definition anchor :: string where
  \<open>anchor = ''<a href="'' @ url @
     ''" target="_blank" rel="noopener noreferrer">App 1 : docker-k8s-helm-local-demo</a>''\<close>

definition root_handler :: "platform \<Rightarrow> request \<Rightarrow> response \<Rightarrow> js_error + response" where
  "root_handler pf req res = then_do (res_type ''html'' res) (res_send pf req anchor)"

text \<open>
  \<^verbatim>\<open>app.get('/health', (req, res) => {
    res.status(200).send('ok');
  });\<close>
\<close>

definition health_handler :: "platform \<Rightarrow> request \<Rightarrow> response \<Rightarrow> js_error + response" where
  "health_handler pf req res = then_do (res_status 200 res) (res_send pf req ''ok'')"

subsection \<open>The router\<close>

text \<open>
  \<open>app.get(path, handler)\<close> appends a route to the application. The file registers two
  routes and nothing else: no middleware, no handler for the requests that no route
  answers, no error handler.
\<close>

record route =
  route_method :: http_method
  route_path :: string
  handler :: "platform \<Rightarrow> request \<Rightarrow> response \<Rightarrow> js_error + response"

definition app :: "route list" where
  "app = [\<lparr>route_method = GET, route_path = ''/'', handler = root_handler\<rparr>,
          \<lparr>route_method = GET, route_path = ''/health'', handler = health_handler\<rparr>]"

text \<open>
  How Express matches, with the settings the file leaves at their defaults: letter case
  is ignored (\<open>case sensitive routing\<close> is off) and one trailing slash is optional
  (\<open>strict routing\<close> is off). For a route path of plain characters, as both paths of the
  file are.
\<close>

definition path_matches :: "string \<Rightarrow> string \<Rightarrow> bool" where
  "path_matches p s =
     (if p \<noteq> [] \<and> last p = CHR ''/''
      then lower s = lower p \<or> lower s = lower (butlast p)
      else lower s = lower p \<or> lower s = lower p @ ''/'')"

text \<open>A route registered with \<open>app.get\<close> answers HEAD too, unless the path has a HEAD route.\<close>

definition handles_method :: "route \<Rightarrow> http_method \<Rightarrow> bool" where
  "handles_method r m = (route_method r = m \<or> (m = HEAD \<and> route_method r = GET))"

definition route_options :: "route \<Rightarrow> http_method list" where
  "route_options r = (if route_method r = GET then [GET, HEAD] else [route_method r])"

text \<open>
  What a request ends in: the answer of a handler; the framework's default answer to an
  exception of a handler (status 500); the framework's default answer when no route
  took the request (status 404); the framework's own answer to an OPTIONS request whose
  path has routes (status 200 and the list of their methods).
\<close>

datatype outcome =
    Responded response
  | DefaultError js_error
  | DefaultNotFound
  | DefaultOptions "http_method list"

fun outcome_status :: "outcome \<Rightarrow> nat" where
  "outcome_status (Responded r) = statusCode r"
| "outcome_status (DefaultError e) = 500"
| "outcome_status DefaultNotFound = 404"
| "outcome_status (DefaultOptions ms) = 200"

text \<open>
  The routes are tried in the order of their registration. A route whose path matches
  but whose method does not is passed over; for an OPTIONS request its methods are
  collected on the way. Each handler gets a fresh response object.
\<close>

fun dispatch :: "platform \<Rightarrow> route list \<Rightarrow> http_method list \<Rightarrow> request \<Rightarrow> outcome" where
  "dispatch pf [] opts req =
     (if req_method req = OPTIONS \<and> opts \<noteq> [] then DefaultOptions opts else DefaultNotFound)"
| "dispatch pf (r # rs) opts req =
     (if path_matches (route_path r) (path req) then
        (if handles_method r (req_method req) then
           (case handler r pf req new_response of
              Inl e \<Rightarrow> DefaultError e
            | Inr res \<Rightarrow> Responded res)
         else dispatch pf rs
                (if req_method req = OPTIONS then remdups (opts @ route_options r) else opts) req)
      else dispatch pf rs opts req)"

definition handle :: "platform \<Rightarrow> request \<Rightarrow> outcome" where
  "handle pf req = dispatch pf app [] req"

subsection \<open>Start of the process\<close>

text \<open>
  \<^verbatim>\<open>app.listen(port, () => {
    console.log(`demo-app listening on port ${port}`);
  });\<close>

  The process as far as the file acts on it: the calls of \<open>listen\<close> it has made, the
  lines it has written to the standard output, its exit status once it has ended, and
  the requests it has answered. Whether the operating system grants a port is not the
  file's to decide: it is the parameter \<open>bindable\<close>.
\<close>

record process =
  listen_calls :: "jsval list"
  stdout :: "string list"
  exit_code :: "nat option"
  served :: "outcome list"

definition initial_process :: process where
  "initial_process = \<lparr>listen_calls = [], stdout = [], exit_code = None, served = []\<rparr>"

definition console_log :: "string \<Rightarrow> process \<Rightarrow> process" where
  "console_log line p = p\<lparr>stdout := stdout p @ [line]\<rparr>"

text \<open>
  An \<open>error\<close> event of Node.js: the listeners registered for it run, in their order.
  When none is registered the error is thrown instead; nothing in the file catches
  it, and the process ends with status 1, the status of an uncaught exception.
\<close>

definition emit_error :: "(process \<Rightarrow> process) list \<Rightarrow> process \<Rightarrow> process" where
  "emit_error listeners proc =
     (if listeners = [] then proc\<lparr>exit_code := Some 1\<rparr>
      else foldl (\<lambda>p f. f p) proc listeners)"

text \<open>
  \<open>app.listen(port, callback)\<close>: one attempt to bind. When it succeeds the server emits
  \<open>listening\<close> and the callback runs. When it fails the server emits \<open>error\<close>.
\<close>

definition app_listen ::
  "jsval \<Rightarrow> (jsval \<Rightarrow> bool) \<Rightarrow> (process \<Rightarrow> process) \<Rightarrow> (process \<Rightarrow> process) list
     \<Rightarrow> process \<Rightarrow> process" where
  "app_listen p bindable callback error_listeners proc =
     (let proc1 = proc\<lparr>listen_calls := listen_calls proc @ [p]\<rparr>
      in if bindable p then callback proc1 else emit_error error_listeners proc1)"

text \<open>
  The file from its first line to its last. It registers no listener for \<open>error\<close>,
  on the server or on the process, and calls \<open>listen\<close> once.
\<close>

definition index_js :: "env \<Rightarrow> (jsval \<Rightarrow> bool) \<Rightarrow> process" where
  "index_js e bindable =
     app_listen (port e) bindable
       (console_log (''demo-app listening on port '' @ js_to_string (port e)))
       []
       initial_process"

text \<open>
  After the start the process answers requests one at a time: Node.js runs a handler to
  its end before it takes the next event, so requests that arrive together are answered
  in some order, one after the other. A process that has ended answers nothing.
\<close>

definition serve :: "platform \<Rightarrow> process \<Rightarrow> request \<Rightarrow> process" where
  "serve pf p req =
     (if exit_code p = None then p\<lparr>served := served p @ [handle pf req]\<rparr> else p)"

definition run :: "platform \<Rightarrow> env \<Rightarrow> (jsval \<Rightarrow> bool) \<Rightarrow> request list \<Rightarrow> process" where
  "run pf e bindable reqs = foldl (serve pf) (index_js e bindable) reqs"

subsection \<open>Names for the statements\<close>

text \<open>
  What a handler answered, read off an outcome: the body it sent and the Content-Type it
  left on the response. The framework's default answers carry a body and headers of
  their own; the model does not hold them, and both functions give \<open>None\<close> there.
\<close>

fun outcome_body :: "outcome \<Rightarrow> string option" where
  "outcome_body (Responded r) = body r"
| "outcome_body (DefaultError e) = None"
| "outcome_body DefaultNotFound = None"
| "outcome_body (DefaultOptions ms) = None"

fun outcome_content_type :: "outcome \<Rightarrow> string option" where
  "outcome_content_type (Responded r) = res_get ''Content-Type'' r"
| "outcome_content_type (DefaultError e) = None"
| "outcome_content_type DefaultNotFound = None"
| "outcome_content_type (DefaultOptions ms) = None"

text \<open>
  Whether \<open>send\<close> finds a request fresh when a handler of the file sends the string
  \<open>chunk\<close>: the method is GET or HEAD, and \<open>fresh\<close> holds of the headers of the
  request, the entity tag of the string and no Last-Modified, which the file never sets.
\<close>

definition finds_fresh :: "platform \<Rightarrow> request \<Rightarrow> string \<Rightarrow> bool" where
  "finds_fresh pf req chunk =
     ((req_method req = GET \<or> req_method req = HEAD)
      \<and> fresh pf (req_headers req)
            (if etag_fn pf chunk = [] then None else Some (etag_fn pf chunk)) None)"

text \<open>
  The response that the handlers turn out to produce when they send the string
  \<open>chunk\<close>, written out: 304 without a body to a fresh request, else 200 with the
  string (without it for HEAD).
\<close>

definition reply :: "platform \<Rightarrow> request \<Rightarrow> string \<Rightarrow> response" where
  "reply pf req chunk =
     (if finds_fresh pf req chunk then
        \<lparr>statusCode = 304,
         headers =
           (if etag_fn pf chunk = [] then [''x-powered-by'' \<mapsto> ''Express'']
            else [''x-powered-by'' \<mapsto> ''Express'', ''etag'' \<mapsto> etag_fn pf chunk]),
         body = Some [], headersSent = True\<rparr>
      else
        \<lparr>statusCode = 200,
         headers =
           (if etag_fn pf chunk = [] then
              [''x-powered-by'' \<mapsto> ''Express'',
               ''content-type'' \<mapsto> ''text/html; charset=utf-8'',
               ''content-length'' \<mapsto> string_of_nat (length chunk)]
            else
              [''x-powered-by'' \<mapsto> ''Express'',
               ''content-type'' \<mapsto> ''text/html; charset=utf-8'',
               ''content-length'' \<mapsto> string_of_nat (length chunk),
               ''etag'' \<mapsto> etag_fn pf chunk]),
         body = Some (if req_method req = HEAD then [] else chunk), headersSent = True\<rparr>)"

text \<open>The string that the route of a path sends.\<close>

definition sent_by :: "string \<Rightarrow> string" where
  "sent_by p = (if path_matches ''/'' p then anchor else ''ok'')"

text \<open>An anchor element, as HTML writes it: the href first, then the other attributes.\<close>

definition anchor_element :: "string \<Rightarrow> string \<Rightarrow> string \<Rightarrow> string" where
  \<open>anchor_element href attrs txt = ''<a href="'' @ href @ ''"'' @ attrs @ ''>'' @ txt @ ''</a>''\<close>

text \<open>Two operating systems for the examples: one grants every port, one grants none.\<close>

definition any_port :: "jsval \<Rightarrow> bool" where
  "any_port p = True"

definition no_port :: "jsval \<Rightarrow> bool" where
  "no_port p = False"

text \<open>
  Two requests for the examples: one with nothing but a method and a path, and one that
  asks for the resource unless the client holds any copy of it (\<open>If-None-Match: *\<close>).
\<close>

definition bare :: "http_method \<Rightarrow> string \<Rightarrow> request" where
  "bare m p = \<lparr>req_method = m, path = p, query = [], req_headers = Map.empty, req_body = []\<rparr>"

definition unless_any :: "http_method \<Rightarrow> string \<Rightarrow> request" where
  "unless_any m p =
     \<lparr>req_method = m, path = p, query = [], req_headers = [''if-none-match'' \<mapsto> ''*''],
      req_body = []\<rparr>"

section \<open>Properties\<close>

subsection \<open>Auxiliary facts\<close>

lemmas res_defs = then_do_def res_status_def res_send_def send_headers_def send_strip_def
  send_reset_def res_type_def res_set_def res_get_def setHeader_def removeHeader_def
  res_end_def setCharset_utf8_def mime_lookup_def mime_charsets_lookup_def charset_here_def
  is_space_def new_response_def req_fresh_def

lemma lower_Content_Type: "lower ''Content-Type'' = ''content-type''"
  by code_simp

lemma lower_Content_Length: "lower ''Content-Length'' = ''content-length''"
  by code_simp

lemma lower_Transfer_Encoding: "lower ''Transfer-Encoding'' = ''transfer-encoding''"
  by code_simp

lemma lower_ETag: "lower ''ETag'' = ''etag''"
  by code_simp

lemma lower_Last_Modified: "lower ''Last-Modified'' = ''last-modified''"
  by code_simp

lemma lower_html: "lower ''html'' = ''html''"
  by code_simp

lemma lower_UTF8: "lower ''UTF-8'' = ''utf-8''"
  by code_simp

lemmas lower_consts = lower_Content_Type lower_Content_Length lower_Transfer_Encoding
  lower_ETag lower_Last_Modified lower_html lower_UTF8

text \<open>What each handler does with the response object that the router gives it.\<close>

lemma root_handler_new: "root_handler pf req new_response = Inr (reply pf req anchor)"
  by (simp add: root_handler_def reply_def finds_fresh_def res_defs lower_consts)

lemma health_handler_new: "health_handler pf req new_response = Inr (reply pf req ''ok'')"
  by (simp add: health_handler_def reply_def finds_fresh_def res_defs lower_consts)

lemma reply_status: "statusCode (reply pf req c) = (if finds_fresh pf req c then 304 else 200)"
  by (simp add: reply_def)

lemma reply_body:
  "body (reply pf req c) =
     Some (if finds_fresh pf req c \<or> req_method req = HEAD then [] else c)"
  by (simp add: reply_def)

lemma reply_content_type:
  "res_get ''Content-Type'' (reply pf req c) =
     (if finds_fresh pf req c then None else Some ''text/html; charset=utf-8'')"
  by (simp add: reply_def res_get_def lower_Content_Type)

lemma reply_cong:
  "finds_fresh pf req1 c = finds_fresh pf req2 c \<Longrightarrow>
   (req_method req1 = HEAD) = (req_method req2 = HEAD) \<Longrightarrow>
   reply pf req1 c = reply pf req2 c"
  by (simp add: reply_def)

text \<open>
  When a request is fresh, in the terms of its headers: it holds no If-Modified-Since
  and no \<open>Cache-Control: no-cache\<close>, and its If-None-Match is \<open>*\<close> or names the
  entity tag of the body.
\<close>

lemma finds_fresh_iff:
  "finds_fresh pf req c \<longleftrightarrow>
     (req_method req = GET \<or> req_method req = HEAD)
     \<and> \<not> given (req_headers req ''if-modified-since'')
     \<and> (case req_headers req ''cache-control'' of None \<Rightarrow> True | Some cc \<Rightarrow> \<not> no_cache cc)
     \<and> (case req_headers req ''if-none-match'' of
           None \<Rightarrow> False
         | Some nm \<Rightarrow>
             nm = ''*''
             \<or> (nm \<noteq> [] \<and> etag_fn pf c \<noteq> []
                 \<and> list_ex (etag_matches (etag_fn pf c)) (parseTokenList nm)))"
  by (cases "req_headers req ''if-none-match''"; cases "req_headers req ''if-modified-since''";
      cases "req_headers req ''cache-control''")
    (auto simp: finds_fresh_def fresh_def Let_def)

lemma not_fresh_without_none_match:
  "\<not> given (req_headers req ''if-none-match'') \<Longrightarrow> \<not> finds_fresh pf req c"
  by (cases "req_headers req ''if-none-match''"; cases "req_headers req ''if-modified-since''")
    (auto simp: finds_fresh_def fresh_def Let_def split: option.splits)

lemma bare_not_fresh: "\<not> finds_fresh pf (bare m p) c"
  by (rule not_fresh_without_none_match) (simp add: bare_def)

lemma unless_any_fresh:
  "m = GET \<or> m = HEAD \<Longrightarrow> finds_fresh pf (unless_any m p) c"
  by (auto simp: finds_fresh_def fresh_def unless_any_def)

lemma length_lower: "length (lower s) = length s"
  by (simp add: lower_def)

lemma lower_eq_length: "lower s = lower t \<Longrightarrow> length s = length t"
  using length_lower [of s] length_lower [of t] by simp

lemma lower_eq_length_app: "lower s = lower t @ u \<Longrightarrow> length s = length t + length u"
  using length_lower [of s] length_lower [of t] by simp

text \<open>No path is matched by both routes: the first takes at most one character, the second at least seven.\<close>

lemma root_not_health: "path_matches ''/'' s \<Longrightarrow> \<not> path_matches ''/health'' s"
proof
  assume a: "path_matches ''/'' s" and b: "path_matches ''/health'' s"
  from a have "length s \<le> 1"
    by (auto simp: path_matches_def dest: lower_eq_length)
  moreover from b have "length s \<ge> 7"
    by (auto simp: path_matches_def dest: lower_eq_length lower_eq_length_app)
  ultimately show False by simp
qed

lemma path_matches_self_root: "path_matches ''/'' ''/''"
  by (simp add: path_matches_def)

lemma path_matches_self_health: "path_matches ''/health'' ''/health''"
  by (simp add: path_matches_def)

text \<open>The router, route by route.\<close>

lemma handle_eq:
  "handle pf req =
     (if path_matches ''/'' (path req) then
        (if req_method req = GET \<or> req_method req = HEAD then Responded (reply pf req anchor)
         else if req_method req = OPTIONS then DefaultOptions [GET, HEAD]
         else DefaultNotFound)
      else if path_matches ''/health'' (path req) then
        (if req_method req = GET \<or> req_method req = HEAD then Responded (reply pf req ''ok'')
         else if req_method req = OPTIONS then DefaultOptions [GET, HEAD]
         else DefaultNotFound)
      else DefaultNotFound)"
  using root_not_health [of "path req"]
  by (auto simp: handle_def app_def handles_method_def route_options_def
      health_handler_new root_handler_new)

lemma handle_get_root:
  "req_method req = GET \<Longrightarrow> path req = ''/'' \<Longrightarrow> handle pf req = Responded (reply pf req anchor)"
  by (simp add: handle_eq path_matches_self_root)

lemma handle_get_health:
  "req_method req = GET \<Longrightarrow> path req = ''/health'' \<Longrightarrow>
   handle pf req = Responded (reply pf req ''ok'')"
  using root_not_health [of "''/health''"]
  by (auto simp: handle_eq path_matches_self_health)

lemma sent_by_root: "sent_by ''/'' = anchor"
  by (simp add: sent_by_def path_matches_self_root)

lemma sent_by_health: "sent_by ''/health'' = ''ok''"
  using root_not_health [of "''/health''"]
  by (auto simp: sent_by_def path_matches_self_health)

lemma handle_get_route:
  "req_method req = GET \<Longrightarrow> path req = ''/'' \<or> path req = ''/health'' \<Longrightarrow>
   handle pf req = Responded (reply pf req (sent_by (path req)))"
  by (auto simp: handle_get_root handle_get_health sent_by_root sent_by_health)

text \<open>Serving requests changes nothing but the list of answers.\<close>

lemma foldl_serve_exit: "exit_code (foldl (serve pf) p reqs) = exit_code p"
  by (induction reqs arbitrary: p) (simp_all add: serve_def)

lemma foldl_serve_listen: "listen_calls (foldl (serve pf) p reqs) = listen_calls p"
  by (induction reqs arbitrary: p) (simp_all add: serve_def)

lemma foldl_serve_stdout: "stdout (foldl (serve pf) p reqs) = stdout p"
  by (induction reqs arbitrary: p) (simp_all add: serve_def)

lemma foldl_serve_served:
  "served (foldl (serve pf) p reqs) =
     (if exit_code p = None then served p @ map (handle pf) reqs else served p)"
  by (induction reqs arbitrary: p) (simp_all add: serve_def)

lemma index_js_bound:
  "b (port e) \<Longrightarrow>
   index_js e b =
     \<lparr>listen_calls = [port e],
      stdout = [''demo-app listening on port '' @ js_to_string (port e)],
      exit_code = None, served = []\<rparr>"
  by (simp add: index_js_def app_listen_def console_log_def initial_process_def)

lemma index_js_refused:
  "\<not> b (port e) \<Longrightarrow>
   index_js e b = \<lparr>listen_calls = [port e], stdout = [], exit_code = Some 1, served = []\<rparr>"
  by (simp add: index_js_def app_listen_def emit_error_def initial_process_def)

lemma run_bound:
  "b (port e) \<Longrightarrow>
   listen_calls (run pf e b reqs) = [port e] \<and> exit_code (run pf e b reqs) = None
   \<and> served (run pf e b reqs) = map (handle pf) reqs"
  by (simp add: run_def foldl_serve_listen foldl_serve_exit foldl_serve_served index_js_bound)

lemma port_unset: "e ''PORT'' = None \<Longrightarrow> port e = JNum 6969"
  by (simp add: port_def env_get_def js_or_def)

lemma port_set: "e ''PORT'' = Some s \<Longrightarrow> port e = (if s = [] then JNum 6969 else JStr s)"
  by (simp add: port_def env_get_def js_or_def)

lemma string_of_nat_6969: "string_of_nat 6969 = ''6969''"
  by (simp add: string_of_nat.simps digit_char_def)

subsection \<open>The health route\<close>

text \<open>
  C1, as the specification has it: every GET request to \<open>/health\<close> is answered with
  status 200 and the body \<open>ok\<close>. A request with \<open>If-None-Match: *\<close> is a GET request
  to \<open>/health\<close>; \<open>send\<close> finds it fresh and answers 304 without a body.
\<close>

theorem health_conditional_counterexample:
  "\<forall>pf. outcome_status (handle pf (unless_any GET ''/health'')) = 304
     \<and> outcome_body (handle pf (unless_any GET ''/health'')) = Some []"
proof
  fix pf
  have "handle pf (unless_any GET ''/health'') =
      Responded (reply pf (unless_any GET ''/health'') ''ok'')"
    by (rule handle_get_health) (simp_all add: unless_any_def)
  moreover have "finds_fresh pf (unless_any GET ''/health'') ''ok''"
    by (simp add: unless_any_fresh)
  ultimately show "outcome_status (handle pf (unless_any GET ''/health'')) = 304
     \<and> outcome_body (handle pf (unless_any GET ''/health'')) = Some []"
    by (simp add: reply_status reply_body)
qed

text \<open>
  C1, amended: every GET request to \<open>/health\<close> that \<open>send\<close> does not find fresh is
  answered by the handler with status 200 and the body \<open>ok\<close>, whatever else the request
  holds; one that it finds fresh is answered 304 with an empty body. A request without
  an If-None-Match header is never found fresh.
\<close>

theorem health_get_answer:
  assumes "req_method req = GET" and "path req = ''/health''"
  shows "(\<not> finds_fresh pf req ''ok'' \<longrightarrow>
            outcome_status (handle pf req) = 200 \<and> outcome_body (handle pf req) = Some ''ok'')
     \<and> (finds_fresh pf req ''ok'' \<longrightarrow>
            outcome_status (handle pf req) = 304 \<and> outcome_body (handle pf req) = Some [])
     \<and> (\<not> given (req_headers req ''if-none-match'') \<longrightarrow> \<not> finds_fresh pf req ''ok'')"
  using handle_get_health [OF assms, of pf] assms(1) not_fresh_without_none_match [of req pf "''ok''"]
  by (simp add: reply_status reply_body)

theorem health_get_answer_witness:
  "\<forall>pf. outcome_status (handle pf (bare GET ''/health'')) = 200
     \<and> outcome_body (handle pf (bare GET ''/health'')) = Some ''ok''
     \<and> outcome_status (handle pf (unless_any GET ''/health'')) = 304"
proof
  fix pf
  have a: "req_method (bare GET ''/health'') = GET" "path (bare GET ''/health'') = ''/health''"
    and b: "req_method (unless_any GET ''/health'') = GET"
      "path (unless_any GET ''/health'') = ''/health''"
    by (simp_all add: bare_def unless_any_def)
  have "\<not> finds_fresh pf (bare GET ''/health'') ''ok''"
    by (rule bare_not_fresh)
  moreover have "finds_fresh pf (unless_any GET ''/health'') ''ok''"
    by (simp add: unless_any_fresh)
  ultimately show "outcome_status (handle pf (bare GET ''/health'')) = 200
     \<and> outcome_body (handle pf (bare GET ''/health'')) = Some ''ok''
     \<and> outcome_status (handle pf (unless_any GET ''/health'')) = 304"
    using health_get_answer [OF a, of pf] health_get_answer [OF b, of pf] by simp
qed

text \<open>
  C4, as the specification has it: the answer to GET \<open>/health\<close> carries the content
  type \<open>text/plain\<close>. The handler names no content type, and \<open>send\<close> labels a string
  that has none as HTML: the statement fails on the plainest request.
\<close>

theorem health_content_type_counterexample:
  "\<forall>pf. outcome_content_type (handle pf (bare GET ''/health'')) = Some ''text/html; charset=utf-8''
     \<and> outcome_content_type (handle pf (bare GET ''/health'')) \<noteq> Some ''text/plain''"
proof
  fix pf
  have "handle pf (bare GET ''/health'') = Responded (reply pf (bare GET ''/health'') ''ok'')"
    by (rule handle_get_health) (simp_all add: bare_def)
  then show "outcome_content_type (handle pf (bare GET ''/health''))
        = Some ''text/html; charset=utf-8''
     \<and> outcome_content_type (handle pf (bare GET ''/health'')) \<noteq> Some ''text/plain''"
    by (simp add: reply_content_type bare_not_fresh)
qed

text \<open>
  C4, amended: the answer to a GET request to \<open>/health\<close> carries the content type that
  \<open>send\<close> gives to a string, \<open>text/html; charset=utf-8\<close>, unless \<open>send\<close> finds the
  request fresh: the answer 304 carries no content type. It is \<open>text/plain\<close> in neither
  case.
\<close>

theorem health_content_type_html:
  assumes "req_method req = GET" and "path req = ''/health''"
  shows "outcome_content_type (handle pf req) =
           (if finds_fresh pf req ''ok'' then None else Some ''text/html; charset=utf-8'')
     \<and> outcome_content_type (handle pf req) \<noteq> Some ''text/plain''"
  using handle_get_health [OF assms, of pf] by (simp add: reply_content_type)

theorem health_content_type_html_witness:
  "\<forall>pf. outcome_content_type
       (handle pf \<lparr>req_method = GET, path = ''/health'', query = ''v=1'',
                   req_headers = [''accept'' \<mapsto> ''text/plain''], req_body = []\<rparr>)
     = Some ''text/html; charset=utf-8''"
proof
  fix pf
  let ?r = "\<lparr>req_method = GET, path = ''/health'', query = ''v=1'',
              req_headers = [''accept'' \<mapsto> ''text/plain''], req_body = []\<rparr>"
  have "\<not> finds_fresh pf ?r ''ok''"
    by (rule not_fresh_without_none_match) simp
  then show "outcome_content_type (handle pf ?r) = Some ''text/html; charset=utf-8''"
    using health_content_type_html [of ?r pf] by simp
qed

subsection \<open>The root route\<close>

text \<open>
  C3, as the specification has it: every GET request to \<open>/\<close> is answered with status
  200, a content type of HTML and the anchor element. To a request with
  \<open>If-None-Match: *\<close> the answer is 304, without a content type and without a body.
\<close>

theorem root_conditional_counterexample:
  "\<forall>pf. outcome_status (handle pf (unless_any GET ''/'')) = 304
     \<and> outcome_content_type (handle pf (unless_any GET ''/'')) = None
     \<and> outcome_body (handle pf (unless_any GET ''/'')) = Some []"
proof
  fix pf
  have "handle pf (unless_any GET ''/'') = Responded (reply pf (unless_any GET ''/'') anchor)"
    by (rule handle_get_root) (simp_all add: unless_any_def)
  moreover have "finds_fresh pf (unless_any GET ''/'') anchor"
    by (simp add: unless_any_fresh)
  ultimately show "outcome_status (handle pf (unless_any GET ''/'')) = 304
     \<and> outcome_content_type (handle pf (unless_any GET ''/'')) = None
     \<and> outcome_body (handle pf (unless_any GET ''/'')) = Some []"
    by (simp add: reply_status reply_body reply_content_type)
qed

text \<open>
  C3, amended: every GET request to \<open>/\<close> that \<open>send\<close> does not find fresh is answered
  with status 200, a content type of HTML, and a body that is one anchor element: its
  href is the address of the repository, its text is
  \<open>App 1 : docker-k8s-helm-local-demo\<close>. One that it finds fresh is answered 304,
  without a content type and with an empty body. A request without an If-None-Match
  header is never found fresh.
\<close>

theorem root_get_anchor:
  assumes "req_method req = GET" and "path req = ''/''"
  shows \<open>(\<not> finds_fresh pf req anchor \<longrightarrow>
       outcome_status (handle pf req) = 200
       \<and> outcome_content_type (handle pf req) = Some ''text/html; charset=utf-8''
       \<and> outcome_body (handle pf req) =
           Some (anchor_element ''https://github.com/KashifWajid/docker-k8s-helm-local-demo''
                   '' target="_blank" rel="noopener noreferrer"''
                   ''App 1 : docker-k8s-helm-local-demo''))
     \<and> (finds_fresh pf req anchor \<longrightarrow>
       outcome_status (handle pf req) = 304
       \<and> outcome_content_type (handle pf req) = None
       \<and> outcome_body (handle pf req) = Some [])
     \<and> (\<not> given (req_headers req ''if-none-match'') \<longrightarrow> \<not> finds_fresh pf req anchor)\<close>
proof -
  have \<open>anchor = anchor_element ''https://github.com/KashifWajid/docker-k8s-helm-local-demo''
                   '' target="_blank" rel="noopener noreferrer"''
                   ''App 1 : docker-k8s-helm-local-demo''\<close>
    by (simp add: anchor_def url_def anchor_element_def)
  then show ?thesis
    using handle_get_root [OF assms, of pf] assms(1)
      not_fresh_without_none_match [of req pf anchor]
    by (simp add: reply_status reply_body reply_content_type)
qed

theorem root_get_anchor_witness:
  \<open>\<forall>pf. outcome_status (handle pf (bare GET ''/'')) = 200
     \<and> outcome_content_type (handle pf (bare GET ''/'')) = Some ''text/html; charset=utf-8''
     \<and> outcome_body (handle pf (bare GET ''/'')) =
         Some (anchor_element ''https://github.com/KashifWajid/docker-k8s-helm-local-demo''
                 '' target="_blank" rel="noopener noreferrer"''
                 ''App 1 : docker-k8s-helm-local-demo'')
     \<and> outcome_body (handle pf (unless_any GET ''/'')) = Some []\<close>
proof
  fix pf
  have a: "req_method (bare GET ''/'') = GET" "path (bare GET ''/'') = ''/''"
    and b: "req_method (unless_any GET ''/'') = GET" "path (unless_any GET ''/'') = ''/''"
    by (simp_all add: bare_def unless_any_def)
  have "\<not> finds_fresh pf (bare GET ''/'') anchor"
    by (rule bare_not_fresh)
  moreover have "finds_fresh pf (unless_any GET ''/'') anchor"
    by (simp add: unless_any_fresh)
  ultimately show \<open>outcome_status (handle pf (bare GET ''/'')) = 200
     \<and> outcome_content_type (handle pf (bare GET ''/'')) = Some ''text/html; charset=utf-8''
     \<and> outcome_body (handle pf (bare GET ''/'')) =
         Some (anchor_element ''https://github.com/KashifWajid/docker-k8s-helm-local-demo''
                 '' target="_blank" rel="noopener noreferrer"''
                 ''App 1 : docker-k8s-helm-local-demo'')
     \<and> outcome_body (handle pf (unless_any GET ''/'')) = Some []\<close>
    using root_get_anchor [OF a, of pf] root_get_anchor [OF b, of pf] by simp
qed

subsection \<open>Requests that no route answers\<close>

text \<open>
  C6. The file registers the two GET routes and nothing else. A request whose path
  matches neither of them, or whose method is one that neither of them takes, gets the
  framework's default answer for a request without a route, status 404, which is not a
  2xx status. (An OPTIONS request to one of the two paths is answered by the framework
  itself and is not among these.)
\<close>

theorem undefined_route_not_found:
  assumes "(\<not> path_matches ''/'' (path req) \<and> \<not> path_matches ''/health'' (path req))
           \<or> req_method req \<in> {POST, PUT, DELETE, PATCH}"
  shows "handle pf req = DefaultNotFound
     \<and> outcome_status (handle pf req) = 404
     \<and> \<not> (200 \<le> outcome_status (handle pf req) \<and> outcome_status (handle pf req) < 300)
     \<and> map (\<lambda>r. (route_method r, route_path r)) app = [(GET, ''/''), (GET, ''/health'')]"
proof -
  from assms have "handle pf req = DefaultNotFound"
    by (auto simp: handle_eq)
  then show ?thesis by (simp add: app_def)
qed

theorem undefined_route_not_found_witness:
  "\<forall>pf. handle pf (bare GET ''/nope'') = DefaultNotFound
     \<and> outcome_status (handle pf (bare GET ''/nope'')) = 404
     \<and> handle pf (bare POST ''/health'') = DefaultNotFound"
proof
  fix pf
  have "\<not> path_matches ''/'' ''/nope''" and "\<not> path_matches ''/health'' ''/nope''"
    by (auto simp: path_matches_def dest: lower_eq_length lower_eq_length_app)
  then show "handle pf (bare GET ''/nope'') = DefaultNotFound
     \<and> outcome_status (handle pf (bare GET ''/nope'')) = 404
     \<and> handle pf (bare POST ''/health'') = DefaultNotFound"
    using undefined_route_not_found [of "bare GET ''/nope''" pf]
      undefined_route_not_found [of "bare POST ''/health''" pf]
    by (simp add: bare_def)
qed

subsection \<open>The port\<close>




text \<open>
  C9, as the specification has it: a PORT that is a falsy string, the empty string or a
  string such as \<open>0\<close> that would be a falsy number, gives way to the default. The
  operator \<open>||\<close> converts nothing: \<open>0\<close> is a string of one character, so it is truthy,
  and the service asks for the port \<open>0\<close>.
\<close>

theorem port_zero_counterexample:
  "port [''PORT'' \<mapsto> ''0''] = JStr ''0'' \<and> port [''PORT'' \<mapsto> ''0''] \<noteq> JNum 6969"
  by (simp add: port_def env_get_def js_or_def)

text \<open>
  C9, amended: a PORT that is set to the empty string gives way to the default 6969;
  every other value that PORT is set to, \<open>0\<close> among them, is taken as the string it is,
  neither parsed nor checked.
\<close>

theorem port_of_set_value:
  assumes "e ''PORT'' = Some s"
  shows "port e = (if s = [] then JNum 6969 else JStr s)"
  using assms by (rule port_set)

theorem port_of_set_value_witness:
  "port [''PORT'' \<mapsto> []] = JNum 6969
   \<and> port [''PORT'' \<mapsto> ''not a number''] = JStr ''not a number''"
  using port_of_set_value [of "[''PORT'' \<mapsto> []]" "[]"]
    port_of_set_value [of "[''PORT'' \<mapsto> ''not a number'']" "''not a number''"]
  by simp

subsection \<open>Start and end of the process\<close>

text \<open>
  C7. When the port is granted, the process writes one line to its output, and the line
  names the port that was chosen. Answering requests adds no line.
\<close>

theorem listening_log_line:
  assumes "b (port e)"
  shows "stdout (run pf e b reqs) = [''demo-app listening on port '' @ js_to_string (port e)]"
  using assms by (simp add: run_def foldl_serve_stdout index_js_bound)

theorem listening_log_line_witness:
  "\<forall>pf. stdout (run pf Map.empty any_port [bare GET ''/'', bare GET ''/health''])
       = [''demo-app listening on port 6969'']
     \<and> stdout (run pf [''PORT'' \<mapsto> ''8081''] any_port []) = [''demo-app listening on port 8081'']"
proof
  fix pf
  show "stdout (run pf Map.empty any_port [bare GET ''/'', bare GET ''/health''])
       = [''demo-app listening on port 6969'']
     \<and> stdout (run pf [''PORT'' \<mapsto> ''8081''] any_port []) = [''demo-app listening on port 8081'']"
    using listening_log_line [of any_port Map.empty pf "[bare GET ''/'', bare GET ''/health'']"]
      listening_log_line [of any_port "[''PORT'' \<mapsto> ''8081'']" pf "[]"]
    by (simp add: any_port_def port_unset port_set string_of_nat_6969)
qed

text \<open>
  C5. The process ends only when the port is refused at the start, whatever requests
  follow. It then ends with status 1, which is not zero, after the one call of \<open>listen\<close>
  for the chosen port: no second call, no other port, no line of output, no request
  answered.
\<close>

theorem bind_failure_is_the_only_failure:
  "(exit_code (run pf e b reqs) \<noteq> None \<longleftrightarrow> \<not> b (port e))
   \<and> (\<not> b (port e) \<longrightarrow>
        exit_code (run pf e b reqs) = Some 1
        \<and> listen_calls (run pf e b reqs) = [port e]
        \<and> stdout (run pf e b reqs) = []
        \<and> served (run pf e b reqs) = [])"
  by (cases "b (port e)")
    (simp_all add: run_def foldl_serve_exit foldl_serve_listen foldl_serve_stdout
      foldl_serve_served index_js_bound index_js_refused)

theorem bind_failure_is_the_only_failure_witness:
  "\<forall>pf. exit_code (run pf Map.empty no_port [bare GET ''/health'']) = Some 1
     \<and> listen_calls (run pf Map.empty no_port [bare GET ''/health'']) = [JNum 6969]
     \<and> stdout (run pf Map.empty no_port [bare GET ''/health'']) = []
     \<and> served (run pf Map.empty no_port [bare GET ''/health'']) = []
     \<and> exit_code (run pf Map.empty any_port [bare GET ''/health'']) = None"
proof
  fix pf
  show "exit_code (run pf Map.empty no_port [bare GET ''/health'']) = Some 1
     \<and> listen_calls (run pf Map.empty no_port [bare GET ''/health'']) = [JNum 6969]
     \<and> stdout (run pf Map.empty no_port [bare GET ''/health'']) = []
     \<and> served (run pf Map.empty no_port [bare GET ''/health'']) = []
     \<and> exit_code (run pf Map.empty any_port [bare GET ''/health'']) = None"
    using bind_failure_is_the_only_failure [of pf Map.empty no_port "[bare GET ''/health'']"]
      bind_failure_is_the_only_failure [of pf Map.empty any_port "[bare GET ''/health'']"]
    by (simp add: no_port_def any_port_def port_unset)
qed

subsection \<open>Handlers without state\<close>

text \<open>
  C8, as the specification has it: any two requests to the same route get the same
  response. Of two GET requests to \<open>/health\<close>, one plain and one with
  \<open>If-None-Match: *\<close>, the first is answered 200 with the body and the second 304
  without it.
\<close>

theorem same_route_counterexample:
  "\<forall>pf. served (run pf Map.empty any_port [bare GET ''/health'', unless_any GET ''/health'']) ! 0
     \<noteq> served (run pf Map.empty any_port [bare GET ''/health'', unless_any GET ''/health'']) ! 1"
proof
  fix pf
  have "any_port (port Map.empty)"
    by (simp add: any_port_def)
  then have s: "served (run pf Map.empty any_port [bare GET ''/health'', unless_any GET ''/health''])
      = [handle pf (bare GET ''/health''), handle pf (unless_any GET ''/health'')]"
    using run_bound [of any_port Map.empty pf "[bare GET ''/health'', unless_any GET ''/health'']"]
    by simp
  have "handle pf (bare GET ''/health'') = Responded (reply pf (bare GET ''/health'') ''ok'')"
    by (rule handle_get_health) (simp_all add: bare_def)
  then have "outcome_status (handle pf (bare GET ''/health'')) = 200"
    by (simp add: reply_status bare_not_fresh)
  moreover have "handle pf (unless_any GET ''/health'')
      = Responded (reply pf (unless_any GET ''/health'') ''ok'')"
    by (rule handle_get_health) (simp_all add: unless_any_def)
  then have "outcome_status (handle pf (unless_any GET ''/health'')) = 304"
    by (simp add: reply_status unless_any_fresh)
  ultimately have "handle pf (bare GET ''/health'') \<noteq> handle pf (unless_any GET ''/health'')"
    by auto
  with s show "served (run pf Map.empty any_port [bare GET ''/health'', unless_any GET ''/health'']) ! 0
     \<noteq> served (run pf Map.empty any_port [bare GET ''/health'', unless_any GET ''/health'']) ! 1"
    by simp
qed

text \<open>
  C8, amended. Take any sequence of requests that a running service answers, in whatever
  order the requests that came together were taken, and any two GET requests in it to
  the same route, \<open>/\<close> or \<open>/health\<close>, that \<open>send\<close> finds equally fresh. Their responses
  are the same: neither the environment, nor the other requests before or between
  them, nor what else the two requests hold has a part in it. When they are not fresh,
  which is so of every request without an If-None-Match header, it is the response to
  the bare request.
\<close>

theorem same_route_same_response:
  assumes "b (port e)" and "i < length reqs" and "j < length reqs"
    and "req_method (reqs ! i) = GET" and "req_method (reqs ! j) = GET"
    and "path (reqs ! i) = path (reqs ! j)"
    and "path (reqs ! i) = ''/'' \<or> path (reqs ! i) = ''/health''"
    and "finds_fresh pf (reqs ! i) (sent_by (path (reqs ! i)))
         = finds_fresh pf (reqs ! j) (sent_by (path (reqs ! i)))"
  shows "served (run pf e b reqs) ! i = served (run pf e b reqs) ! j
     \<and> (\<not> finds_fresh pf (reqs ! i) (sent_by (path (reqs ! i))) \<longrightarrow>
          served (run pf e b reqs) ! i = handle pf (bare GET (path (reqs ! i))))
     \<and> (\<not> given (req_headers (reqs ! i) ''if-none-match'') \<longrightarrow>
          \<not> finds_fresh pf (reqs ! i) (sent_by (path (reqs ! i))))"
proof -
  let ?p = "path (reqs ! i)" and ?c = "sent_by (path (reqs ! i))"
  have si: "served (run pf e b reqs) ! i = handle pf (reqs ! i)"
    and sj: "served (run pf e b reqs) ! j = handle pf (reqs ! j)"
    using run_bound [of b e pf reqs] assms(1,2,3) by simp_all
  have hi: "handle pf (reqs ! i) = Responded (reply pf (reqs ! i) ?c)"
    using handle_get_route [OF assms(4,7), of pf] .
  have hj: "handle pf (reqs ! j) = Responded (reply pf (reqs ! j) ?c)"
    using handle_get_route [of "reqs ! j" pf] assms(5,6,7) by simp
  have hb: "handle pf (bare GET ?p) = Responded (reply pf (bare GET ?p) ?c)"
    using handle_get_route [of "bare GET ?p" pf] assms(7) by (simp add: bare_def)
  have "reply pf (reqs ! i) ?c = reply pf (reqs ! j) ?c"
    using assms(4,5,8) by (intro reply_cong) simp_all
  moreover have "reply pf (reqs ! i) ?c = reply pf (bare GET ?p) ?c"
    if "\<not> finds_fresh pf (reqs ! i) ?c"
    using that assms(4) bare_not_fresh [of pf GET ?p ?c]
    by (intro reply_cong) (simp_all add: bare_def)
  ultimately show ?thesis
    using si sj hi hj hb not_fresh_without_none_match [of "reqs ! i" pf ?c] by auto
qed

theorem same_route_same_response_witness:
  "\<forall>pf. served (run pf [''PORT'' \<mapsto> ''8081''] any_port
      [\<lparr>req_method = GET, path = ''/health'', query = ''a=1'',
         req_headers = [''accept'' \<mapsto> ''*/*''], req_body = []\<rparr>,
       bare GET ''/'',
       \<lparr>req_method = GET, path = ''/health'', query = [],
         req_headers = [''user-agent'' \<mapsto> ''probe''], req_body = ''ignored''\<rparr>]) ! 0
   = served (run pf [''PORT'' \<mapsto> ''8081''] any_port
      [\<lparr>req_method = GET, path = ''/health'', query = ''a=1'',
         req_headers = [''accept'' \<mapsto> ''*/*''], req_body = []\<rparr>,
       bare GET ''/'',
       \<lparr>req_method = GET, path = ''/health'', query = [],
         req_headers = [''user-agent'' \<mapsto> ''probe''], req_body = ''ignored''\<rparr>]) ! 2"
proof
  fix pf
  let ?r0 = "\<lparr>req_method = GET, path = ''/health'', query = ''a=1'',
         req_headers = [''accept'' \<mapsto> ''*/*''], req_body = []\<rparr>"
  let ?r2 = "\<lparr>req_method = GET, path = ''/health'', query = [],
         req_headers = [''user-agent'' \<mapsto> ''probe''], req_body = ''ignored''\<rparr>"
  have "\<not> finds_fresh pf ?r0 (sent_by ''/health'')"
    and "\<not> finds_fresh pf ?r2 (sent_by ''/health'')"
    by (rule not_fresh_without_none_match, simp)+
  then show "served (run pf [''PORT'' \<mapsto> ''8081''] any_port [?r0, bare GET ''/'', ?r2]) ! 0
     = served (run pf [''PORT'' \<mapsto> ''8081''] any_port [?r0, bare GET ''/'', ?r2]) ! 2"
    using same_route_same_response
      [of any_port "[''PORT'' \<mapsto> ''8081'']" 0 "[?r0, bare GET ''/'', ?r2]" 2 pf]
    by (simp add: any_port_def)
qed

text \<open>
  C10, as the specification has it: on a request to one of the two routes the status is
  never another than 200, whatever the headers. With the header \<open>If-None-Match: *\<close> it
  is 304, on both routes.
\<close>

theorem status_not_200_counterexample:
  "\<forall>pf. outcome_status (handle pf (unless_any GET ''/health'')) \<noteq> 200
     \<and> outcome_status (handle pf (unless_any GET ''/'')) \<noteq> 200"
proof
  fix pf
  have "handle pf (unless_any GET ''/health'')
      = Responded (reply pf (unless_any GET ''/health'') ''ok'')"
    by (rule handle_get_health) (simp_all add: unless_any_def)
  moreover have "handle pf (unless_any GET ''/'') = Responded (reply pf (unless_any GET ''/'') anchor)"
    by (rule handle_get_root) (simp_all add: unless_any_def)
  ultimately show "outcome_status (handle pf (unless_any GET ''/health'')) \<noteq> 200
     \<and> outcome_status (handle pf (unless_any GET ''/'')) \<noteq> 200"
    by (simp add: reply_status unless_any_fresh)
qed

text \<open>
  C10, amended. On every request that one of the two routes takes, the handler returns
  without an exception, whatever the headers, the query and the body of the request
  are, and some handler answers. The status of the response is 200, unless \<open>send\<close>
  finds the request fresh: then it is 304. No other status occurs, and a request
  without an If-None-Match header is always answered 200. Neither handler can throw on
  the response object that the router gives it.
\<close>

theorem handlers_total:
  assumes "req_method req = GET \<or> req_method req = HEAD"
    and "path_matches ''/'' (path req) \<or> path_matches ''/health'' (path req)"
  shows "handle pf req \<noteq> DefaultNotFound
     \<and> (\<forall>err. handle pf req \<noteq> DefaultError err)
     \<and> outcome_status (handle pf req)
         = (if finds_fresh pf req (sent_by (path req)) then 304 else 200)
     \<and> (\<not> given (req_headers req ''if-none-match'') \<longrightarrow> outcome_status (handle pf req) = 200)
     \<and> \<not> isl (root_handler pf req new_response)
     \<and> \<not> isl (health_handler pf req new_response)"
proof -
  from assms have "handle pf req = Responded (reply pf req (sent_by (path req)))"
    using root_not_health [of "path req"] by (auto simp: handle_eq sent_by_def)
  then show ?thesis
    using not_fresh_without_none_match [of req pf "sent_by (path req)"]
    by (auto simp: reply_status root_handler_new health_handler_new)
qed

theorem handlers_total_witness:
  "\<forall>pf. outcome_status
       (handle pf \<lparr>req_method = GET, path = ''/health'', query = ''x=1&y=2'',
                   req_headers = [''accept'' \<mapsto> ''application/json'', ''x-trace'' \<mapsto> ''7''],
                   req_body = ''{}''\<rparr>) = 200
     \<and> outcome_status (handle pf (unless_any HEAD ''/'')) = 304"
proof
  fix pf
  let ?r = "\<lparr>req_method = GET, path = ''/health'', query = ''x=1&y=2'',
              req_headers = [''accept'' \<mapsto> ''application/json'', ''x-trace'' \<mapsto> ''7''],
              req_body = ''{}''\<rparr>"
  have "finds_fresh pf (unless_any HEAD ''/'') (sent_by (path (unless_any HEAD ''/'')))"
    by (simp add: unless_any_fresh)
  moreover have "path (unless_any HEAD ''/'') = ''/''" "req_method (unless_any HEAD ''/'') = HEAD"
    by (simp_all add: unless_any_def)
  ultimately show "outcome_status (handle pf ?r) = 200
     \<and> outcome_status (handle pf (unless_any HEAD ''/'')) = 304"
    using handlers_total [of ?r pf] handlers_total [of "unless_any HEAD ''/''" pf]
    by (simp add: path_matches_self_root path_matches_self_health)
qed

end
